theory Spec2Isabelle
  imports
    Complex_Main
    "HOL-Library.Multiset"
    "HOL-Library.Char_ord"
    "HOL-Library.List_Lexorder"
    "HOL-Library.Product_Lexorder"
begin

section \<open>The BLS dashboard pipeline: fetcher and transformer\<close>

text \<open>
  The development follows \<^verbatim>\<open>data_fetcher.py\<close> (class \<^verbatim>\<open>BLSDataFetcher\<close>) and
  \<^verbatim>\<open>utils.py\<close> (\<^verbatim>\<open>calculate_changes\<close>, \<^verbatim>\<open>get_latest_metrics\<close>).

  Conventions of the embedding.
  \<^item> A pandas DataFrame is the list of its rows in positional order, and its columns are
    the fields of the row type; the empty DataFrame is the empty list. The frame without
    columns that \<^verbatim>\<open>fetch_data\<close> returns on a failure is empty as well:
    \<^verbatim>\<open>calculate_changes\<close> raises on either. \<^verbatim>\<open>get_latest_metrics\<close> subscripts
    columns, so its argument is a \<open>frame\<close>, which says what columns the table has.
  \<^item> The upstream JSON document has the shape the fetcher reads
    (\<^verbatim>\<open>status\<close>, \<^verbatim>\<open>message\<close>, \<^verbatim>\<open>Results.series[].seriesID\<close>,
    \<^verbatim>\<open>Results.series[].data[].year/period/value\<close>); every key may be absent
    (\<open>None\<close>), every leaf that is present is a string. Strings are byte strings in
    UTF-8, whose lexicographic order is Python's code point order.
  \<^item> Every \<^verbatim>\<open>raise\<close> is a value \<open>Inl e\<close> of the type \<open>error + 'a\<close>.
  \<^item> The Python and pandas primitives the code calls (\<^verbatim>\<open>float\<close>, \<^verbatim>\<open>int\<close>,
    \<^verbatim>\<open>pd.to_datetime\<close>) are parameters, collected in the record \<open>py\<close>: \<open>None\<close>
    stands for the exception the primitive raises. \<^verbatim>\<open>pd.to_datetime\<close> is taken to
    convert a column string by string. The float type \<open>'v\<close> and the timestamp
    type \<open>'d\<close> are type parameters, so nothing is assumed about floating-point arithmetic
    beyond the operations the code applies: subtraction, division and multiplication are
    the operations of \<open>'v\<close>, whatever they compute. A missing value of a pandas column
    (NaN) is \<open>None\<close>; the values of the column \<^verbatim>\<open>Value\<close> are present, so the
    filling of missing values that older versions of \<^verbatim>\<open>pct_change\<close> perform first has
    nothing to fill.
\<close>

subsection \<open>Data model\<close>

datatype error =
    KeyError string
  | ValueError string
  | DateParseError string
  | RequestException
  | HTTPError
  | JSONDecodeError

record item =
  year :: "string option"
  period :: "string option"
  item_value :: "string option"

record series_obj =
  seriesID :: "string option"
  data :: "item list option"

record results =
  series :: "series_obj list option"

record response =
  status :: "string option"
  message :: "string list option"
  Results :: "results option"

text \<open>
  What lines 34 to 36 of \<^verbatim>\<open>fetch_data\<close> produce: \<^verbatim>\<open>requests.post\<close> raises,
  \<^verbatim>\<open>raise_for_status\<close> raises on an error status, \<^verbatim>\<open>response.json()\<close> raises on a
  malformed body, or a JSON document is returned.
\<close>

datatype http_result =
    ConnectionFailed
  | ErrorStatus
  | MalformedBody
  | Body response

record ('v, 'd) row =
  Series_ID :: string
  Series_Name :: string
  Date :: 'd
  Value :: 'v
  Year :: int
  Month :: int

record ('v, 'd) py =
  py_float :: "string \<Rightarrow> 'v option"
  py_int :: "string \<Rightarrow> int option"
  to_datetime :: "string \<Rightarrow> 'd option"

datatype log_entry =
    ApiError "string list"
  | ErrorFetchingData error

subsection \<open>The series catalog\<close>

definition series_map :: "(string \<times> string) list" where
  "series_map =
     [(''LNS14000000'', ''Unemployment Rate''),
      (''CES0000000001'', ''Total Nonfarm Employment''),
      (''CES0500000003'', ''Average Hourly Earnings''),
      (''CUSR0000SA0'', ''CPI (Seasonally Adjusted)'')]"

text \<open>\<^verbatim>\<open>self.series_map.get(series_id, series_id)\<close>\<close>

definition series_map_get :: "string \<Rightarrow> string" where
  "series_map_get series_id =
     (case map_of series_map series_id of None \<Rightarrow> series_id | Some name \<Rightarrow> name)"

subsection \<open>Formatting the month\<close>

text \<open>
  The format specification \<^verbatim>\<open>{month:02d}\<close>: decimal digits, padded with zeros to the
  width 2, the sign counting for the width.
\<close>

fun str_nat :: "nat \<Rightarrow> string" where
  "str_nat n =
     (if n < 10 then [''0123456789'' ! n]
      else str_nat (n div 10) @ [''0123456789'' ! (n mod 10)])"

declare str_nat.simps [simp del]

definition fmt02d :: "int \<Rightarrow> string" where
  "fmt02d m =
     (if m < 0 then ''-'' @ str_nat (nat (- m))
      else if m < 10 then ''0'' @ str_nat (nat m)
      else str_nat (nat m))"

subsection \<open>\<^verbatim>\<open>_process_data\<close>\<close>

text \<open>
  The body of the inner loop, for one \<^verbatim>\<open>item\<close>: the three subscripts raise
  \<^verbatim>\<open>KeyError\<close> on a missing key; the period test is Python's chained string
  comparison; \<^verbatim>\<open>int(period[1:])\<close> is outside the \<^verbatim>\<open>try\<close> and raises
  \<^verbatim>\<open>ValueError\<close>; a \<^verbatim>\<open>ValueError\<close> of \<^verbatim>\<open>float(value)\<close> is caught and the item
  is skipped; \<^verbatim>\<open>int(year)\<close> is evaluated while the row is built and raises
  \<^verbatim>\<open>ValueError\<close>. The result is the list \<^verbatim>\<open>all_data\<close> after the iteration.
\<close>

definition process_item ::
  "('v, 'd) py \<Rightarrow> string \<Rightarrow> string \<Rightarrow> ('v, string) row list \<Rightarrow> item
     \<Rightarrow> error + ('v, string) row list" where
  "process_item py series_id series_name all_data it =
     (case year it of
        None \<Rightarrow> Inl (KeyError ''year'')
      | Some y \<Rightarrow>
     (case period it of
        None \<Rightarrow> Inl (KeyError ''period'')
      | Some p \<Rightarrow>
     (case item_value it of
        None \<Rightarrow> Inl (KeyError ''value'')
      | Some v \<Rightarrow>
        if ''M01'' \<le> p \<and> p \<le> ''M12'' then
          (case py_int py (drop 1 p) of
             None \<Rightarrow> Inl (ValueError (drop 1 p))
           | Some month \<Rightarrow>
               let date = y @ ''-'' @ fmt02d month @ ''-01'' in
               (case py_float py v of
                  None \<Rightarrow> Inr all_data
                | Some float_value \<Rightarrow>
                    (case py_int py y of
                       None \<Rightarrow> Inl (ValueError y)
                     | Some y_int \<Rightarrow>
                         Inr (all_data @
                           [\<lparr>Series_ID = series_id, Series_Name = series_name,
                             Date = date, Value = float_value,
                             Year = y_int, Month = month\<rparr>]))))
        else Inr all_data)))"

fun process_items ::
  "('v, 'd) py \<Rightarrow> string \<Rightarrow> string \<Rightarrow> ('v, string) row list \<Rightarrow> item list
     \<Rightarrow> error + ('v, string) row list" where
  "process_items py series_id series_name all_data [] = Inr all_data"
| "process_items py series_id series_name all_data (it # items) =
     (case process_item py series_id series_name all_data it of
        Inl e \<Rightarrow> Inl e
      | Inr all_data' \<Rightarrow> process_items py series_id series_name all_data' items)"

text \<open>The body of the outer loop, for one \<^verbatim>\<open>series\<close>.\<close>

definition process_series ::
  "('v, 'd) py \<Rightarrow> ('v, string) row list \<Rightarrow> series_obj \<Rightarrow> error + ('v, string) row list" where
  "process_series py all_data s =
     (case seriesID s of
        None \<Rightarrow> Inl (KeyError ''seriesID'')
      | Some series_id \<Rightarrow>
          let series_name = series_map_get series_id in
          (case data s of
             None \<Rightarrow> Inl (KeyError ''data'')
           | Some items \<Rightarrow> process_items py series_id series_name all_data items))"

fun process_series_list ::
  "('v, 'd) py \<Rightarrow> ('v, string) row list \<Rightarrow> series_obj list \<Rightarrow> error + ('v, string) row list" where
  "process_series_list py all_data [] = Inr all_data"
| "process_series_list py all_data (s # ss) =
     (case process_series py all_data s of
        Inl e \<Rightarrow> Inl e
      | Inr all_data' \<Rightarrow> process_series_list py all_data' ss)"

text \<open>
  \<^verbatim>\<open>df['Date'] = pd.to_datetime(df['Date'])\<close>: the column is converted, and the
  conversion raises when a string is no date.
\<close>

fun convert_dates ::
  "('v, 'd) py \<Rightarrow> ('v, string) row list \<Rightarrow> error + ('v, 'd) row list" where
  "convert_dates py [] = Inr []"
| "convert_dates py (r # rs) =
     (case to_datetime py (Date r) of
        None \<Rightarrow> Inl (DateParseError (Date r))
      | Some d \<Rightarrow>
          (case convert_dates py rs of
             Inl e \<Rightarrow> Inl e
           | Inr rs' \<Rightarrow>
               Inr (\<lparr>Series_ID = Series_ID r, Series_Name = Series_Name r, Date = d,
                     Value = Value r, Year = Year r, Month = Month r\<rparr> # rs')))"

text \<open>
  \<^verbatim>\<open>df.sort_values(by=['Series Name', 'Date'])\<close>: sorting on several columns is
  stable in pandas, as \<open>sort_key\<close> is.
\<close>

definition sort_values_name_date :: "('v, 'd::linorder) row list \<Rightarrow> ('v, 'd) row list" where
  "sort_values_name_date df = sort_key (\<lambda>r. (Series_Name r, Date r)) df"

definition process_data ::
  "('v, 'd::linorder) py \<Rightarrow> response \<Rightarrow> error + ('v, 'd) row list" where
  "process_data py json_data =
     (case Results json_data of
        None \<Rightarrow> Inr []
      | Some res \<Rightarrow>
          (case series res of
             None \<Rightarrow> Inr []
           | Some ss \<Rightarrow>
               (case process_series_list py [] ss of
                  Inl e \<Rightarrow> Inl e
                | Inr all_data \<Rightarrow>
                    if all_data = [] then Inr []
                    else (case convert_dates py all_data of
                            Inl e \<Rightarrow> Inl e
                          | Inr df \<Rightarrow> Inr (sort_values_name_date df)))))"

subsection \<open>\<^verbatim>\<open>fetch_data\<close>\<close>

text \<open>
  The \<^verbatim>\<open>try\<close> block, with what it prints. The request payload (the catalog's
  identifiers and the year window) only decides what the server answers, so the answer is
  the argument.
\<close>

definition fetch_data_try ::
  "('v, 'd::linorder) py \<Rightarrow> http_result \<Rightarrow> log_entry list \<times> (error + ('v, 'd) row list)" where
  "fetch_data_try py http =
     (case http of
        ConnectionFailed \<Rightarrow> ([], Inl RequestException)
      | ErrorStatus \<Rightarrow> ([], Inl HTTPError)
      | MalformedBody \<Rightarrow> ([], Inl JSONDecodeError)
      | Body json_data \<Rightarrow>
          (case status json_data of
             None \<Rightarrow> ([], Inl (KeyError ''status''))
           | Some st \<Rightarrow>
               if st \<noteq> ''REQUEST_SUCCEEDED'' then
                 (case message json_data of
                    None \<Rightarrow> ([], Inl (KeyError ''message''))
                  | Some msg \<Rightarrow> ([ApiError msg], process_data py json_data))
               else ([], process_data py json_data)))"

text \<open>
  \<^verbatim>\<open>except Exception\<close>: every error of the block is printed and replaced by the empty
  DataFrame. The result is the log and the returned table.
\<close>

definition fetch_data ::
  "('v, 'd::linorder) py \<Rightarrow> http_result \<Rightarrow> log_entry list \<times> ('v, 'd) row list" where
  "fetch_data py http =
     (case fetch_data_try py http of
        (printed, Inl e) \<Rightarrow> (printed @ [ErrorFetchingData e], [])
      | (printed, Inr df) \<Rightarrow> (printed, df))"

subsection \<open>\<^verbatim>\<open>calculate_changes\<close>\<close>

record ('v, 'd) erow = "('v, 'd) row" +
  MoM_Change :: "'v option"
  MoM_Pct_Change :: "'v option"
  YoY_Pct_Change :: "'v option"

datatype concat_error = NoObjectsToConcatenate

text \<open>
  \<^verbatim>\<open>Series.shift(periods)\<close>: the values move down by \<open>k\<close> positions and the first
  \<open>k\<close> positions hold no value (pandas writes NaN, the model \<open>None\<close>).
\<close>

definition shift :: "nat \<Rightarrow> 'a list \<Rightarrow> 'a option list" where
  "shift k xs = take (length xs) (replicate k None @ map Some xs)"

text \<open>\<^verbatim>\<open>Series.diff()\<close> is \<^verbatim>\<open>s - s.shift(1)\<close>.\<close>

definition diff :: "('v::minus) list \<Rightarrow> 'v option list" where
  "diff xs = map2 (\<lambda>x p. map_option (\<lambda>q. x - q) p) xs (shift 1 xs)"

text \<open>\<^verbatim>\<open>Series.pct_change(periods)\<close> is \<^verbatim>\<open>s / s.shift(periods) - 1\<close>.\<close>

definition pct_change :: "nat \<Rightarrow> ('v::{minus,inverse,one}) list \<Rightarrow> 'v option list" where
  "pct_change k xs = map2 (\<lambda>x p. map_option (\<lambda>q. x / q - 1) p) xs (shift k xs)"

definition times100 :: "('v::{times,numeral}) option list \<Rightarrow> 'v option list" where
  "times100 cs = map (map_option (\<lambda>c. c * 100)) cs"

text \<open>
  The body of the loop over the groups. \<^verbatim>\<open>group.copy().sort_values('Date')\<close> is the
  parameter \<open>sort_values\<close>: sorting on one column uses NumPy's quicksort, which
  promises a permutation in ascending order of the dates and no order among equal dates.
\<close>

definition sort_values_spec ::
  "(('v, 'd::linorder) row list \<Rightarrow> ('v, 'd) row list) \<Rightarrow> bool" where
  "sort_values_spec sort_values \<longleftrightarrow>
     (\<forall>g. sorted (map Date (sort_values g)) \<and> mset (sort_values g) = mset g)"

definition add_columns ::
  "('v, 'd) row \<Rightarrow> 'v option \<Rightarrow> 'v option \<Rightarrow> 'v option \<Rightarrow> ('v, 'd) erow" where
  "add_columns r mom mom_pct yoy_pct =
     row.extend r (erow.fields mom mom_pct yoy_pct)"

definition process_group ::
  "(('v, 'd) row list \<Rightarrow> ('v, 'd) row list) \<Rightarrow> ('v::{minus,inverse,times,numeral}, 'd) row list
     \<Rightarrow> ('v, 'd) erow list" where
  "process_group sort_values group0 =
     (let group = sort_values group0;
          mom = diff (map Value group);
          mom_pct = times100 (pct_change 1 (map Value group));
          yoy_pct = times100 (pct_change 12 (map Value group))
      in map (\<lambda>i. add_columns (group ! i) (mom ! i) (mom_pct ! i) (yoy_pct ! i))
           [0 ..< length group])"

text \<open>
  \<^verbatim>\<open>df.groupby('Series Name')\<close> iterates over the distinct names in ascending order,
  each with the rows of that name in their stored order.
\<close>

definition groupby :: "('v, 'd) row list \<Rightarrow> (string \<times> ('v, 'd) row list) list" where
  "groupby df =
     map (\<lambda>name. (name, filter (\<lambda>r. Series_Name r = name) df))
       (sort (remdups (map Series_Name df)))"

text \<open>
  \<^verbatim>\<open>pd.concat\<close> raises \<^verbatim>\<open>ValueError\<close> (no objects to concatenate) on an empty list
  of frames, which is what the loop leaves when the table has no rows.
\<close>

definition calculate_changes ::
  "(('v, 'd) row list \<Rightarrow> ('v, 'd) row list) \<Rightarrow> ('v::{minus,inverse,times,numeral}, 'd) row list
     \<Rightarrow> concat_error + ('v, 'd) erow list" where
  "calculate_changes sort_values df =
     (let processed_dfs = map (\<lambda>(name, group). process_group sort_values group) (groupby df)
      in if processed_dfs = [] then Inl NoObjectsToConcatenate
         else Inr (concat processed_dfs))"

subsection \<open>\<^verbatim>\<open>get_latest_metrics\<close>\<close>

record ('v, 'd) metrics =
  date :: 'd
  latest_value :: 'v
  mom_change :: "'v option"
  mom_pct_change :: "'v option"
  yoy_pct_change :: "'v option"

text \<open>
  The tables the function can be given: the frame without columns (\<^verbatim>\<open>pd.DataFrame()\<close>,
  what \<^verbatim>\<open>fetch_data\<close> returns on a failure), a table of observations as
  \<^verbatim>\<open>fetch_data\<close> returns it, and a table with the three change columns as
  \<^verbatim>\<open>calculate_changes\<close> returns it.
\<close>

datatype ('v, 'd) frame =
    NoColumns
  | Observations "('v, 'd) row list"
  | Enriched "('v, 'd) erow list"

text \<open>
  \<^verbatim>\<open>df['Series Name']\<close> is evaluated first and raises \<^verbatim>\<open>KeyError\<close> on a frame
  without that column. The boolean mask keeps the rows of the series in their stored
  order; when there is none the result is Python's \<^verbatim>\<open>None\<close>, written \<open>Inr None\<close>;
  otherwise \<^verbatim>\<open>iloc[-1]\<close> is the last of them, and the dictionary is built from its
  columns, \<^verbatim>\<open>latest['MoM Change']\<close> raising \<^verbatim>\<open>KeyError\<close> on a table that has no
  change columns.
\<close>

definition get_latest_metrics ::
  "('v, 'd) frame \<Rightarrow> string \<Rightarrow> error + ('v, 'd) metrics option" where
  "get_latest_metrics df series_name =
     (case df of
        NoColumns \<Rightarrow> Inl (KeyError ''Series Name'')
      | Observations rows \<Rightarrow>
          (let series_data = filter (\<lambda>r. Series_Name r = series_name) rows
           in if series_data = [] then Inr None
              else Inl (KeyError ''MoM Change''))
      | Enriched rows \<Rightarrow>
          (let series_data = filter (\<lambda>r. Series_Name r = series_name) rows
           in if series_data = [] then Inr None
              else let latest = last series_data
                   in Inr (Some \<lparr>date = Date latest,
                                  latest_value = Value latest,
                                  mom_change = MoM_Change latest,
                                  mom_pct_change = MoM_Pct_Change latest,
                                  yoy_pct_change = YoY_Pct_Change latest\<rparr>)))"

subsection \<open>Concrete primitives for the evaluations\<close>

text \<open>
  Fragments of the three primitives, for evaluating the pipeline on concrete documents.
  \<open>dec_int\<close> is \<^verbatim>\<open>int\<close> on strings of ASCII digits; \<open>dec_float\<close> is \<^verbatim>\<open>float\<close>
  on literals \<^verbatim>\<open>digits\<close> and \<^verbatim>\<open>digits.digits\<close>, with the exact rational value (the
  evaluations use values that binary floating point represents exactly);
  \<open>iso_date\<close> is \<^verbatim>\<open>pd.to_datetime\<close> on \<^verbatim>\<open>YYYY-MM-DD\<close> with a month from 01 to 12
  and a day from 01 to 28, a timestamp being the triple (year, month, day). The fragments
  reject every other string; the evaluations below apply them to strings that Python
  rejects as well, or to strings of the fragment.
\<close>

definition is_digit :: "char \<Rightarrow> bool" where
  "is_digit c = (CHR ''0'' \<le> c \<and> c \<le> CHR ''9'')"

definition dec_nat :: "string \<Rightarrow> nat" where
  "dec_nat s = foldl (\<lambda>n c. 10 * n + (of_char c - 48)) 0 s"

definition dec_int :: "string \<Rightarrow> int option" where
  "dec_int s = (if s \<noteq> [] \<and> list_all is_digit s then Some (int (dec_nat s)) else None)"

definition dec_float :: "string \<Rightarrow> rat option" where
  "dec_float s =
     (let a = takeWhile (\<lambda>c. c \<noteq> CHR ''.'') s;
          r = dropWhile (\<lambda>c. c \<noteq> CHR ''.'') s
      in if a \<noteq> [] \<and> list_all is_digit a then
           (if r = [] then Some (of_nat (dec_nat a))
            else let b = tl r
                 in if b \<noteq> [] \<and> list_all is_digit b
                    then Some (of_nat (dec_nat a) + of_nat (dec_nat b) / 10 ^ length b)
                    else None)
         else None)"

definition iso_date :: "string \<Rightarrow> (nat \<times> nat \<times> nat) option" where
  "iso_date s =
     (if length s = 10 \<and> s ! 4 = CHR ''-'' \<and> s ! 7 = CHR ''-''
         \<and> list_all is_digit (take 4 s) \<and> list_all is_digit (take 2 (drop 5 s))
         \<and> list_all is_digit (drop 8 s)
      then let y = dec_nat (take 4 s); m = dec_nat (take 2 (drop 5 s)); d = dec_nat (drop 8 s)
           in if 1 \<le> m \<and> m \<le> 12 \<and> 1 \<le> d \<and> d \<le> 28 then Some (y, m, d) else None
      else None)"

definition py0 :: "(rat, nat \<times> nat \<times> nat) py" where
  "py0 = \<lparr>py_float = dec_float, py_int = dec_int, to_datetime = iso_date\<rparr>"

subsection \<open>Auxiliary notions for the proofs\<close>

text \<open>The table \<^verbatim>\<open>calculate_changes\<close> returns on a table with at least one row.\<close>

definition changed :: "(('v, 'd) row list \<Rightarrow> ('v, 'd) row list) \<Rightarrow> ('v::{minus,inverse,times,numeral}, 'd) row list \<Rightarrow> ('v, 'd) erow list" where
  "changed srt df = concat (map (\<lambda>n. process_group srt (filter (\<lambda>r. Series_Name r = n) df))
       (sort (remdups (map Series_Name df))))"


text \<open>
  The upstream entries that yield a row: an entry is accepted when its period passes the
  string comparison of \<^verbatim>\<open>_process_data\<close> and its value is parsed by \<^verbatim>\<open>float\<close>.
  \<open>accepted_entries\<close> lists them in the order of the response, each with the
  identifier of its series, repeated entries repeated.
\<close>

definition accepted :: "('v, 'd) py \<Rightarrow> item \<Rightarrow> bool" where
  "accepted py it =
     (case period it of
        None \<Rightarrow> False
      | Some p \<Rightarrow>
          ''M01'' \<le> p \<and> p \<le> ''M12''
          \<and> (case item_value it of None \<Rightarrow> False | Some v \<Rightarrow> py_float py v \<noteq> None))"

definition response_series :: "response \<Rightarrow> series_obj list" where
  "response_series j =
     (case Results j of
        None \<Rightarrow> []
      | Some res \<Rightarrow> (case series res of None \<Rightarrow> [] | Some ss \<Rightarrow> ss))"

definition series_entries :: "('v, 'd) py \<Rightarrow> series_obj \<Rightarrow> (string \<times> item) list" where
  "series_entries py s =
     (case seriesID s of
        None \<Rightarrow> []
      | Some sid \<Rightarrow>
          (case data s of
             None \<Rightarrow> []
           | Some items \<Rightarrow> map (Pair sid) (filter (accepted py) items)))"

definition accepted_entries :: "('v, 'd) py \<Rightarrow> response \<Rightarrow> (string \<times> item) list" where
  "accepted_entries py j = concat (map (series_entries py) (response_series j))"

text \<open>
  The row an accepted entry yields: before the dates are converted (\<open>raw_row_of\<close>, the
  date being the string \<^verbatim>\<open>year-MM-01\<close>), the conversion of one row (\<open>converted\<close>),
  and the row of the returned table (\<open>row_of_entry\<close>).
\<close>

definition raw_row_of :: "('v, 'd) py \<Rightarrow> string \<times> item \<Rightarrow> ('v, string) row \<Rightarrow> bool" where
  "raw_row_of py e r =
     (Series_ID r = fst e \<and> Series_Name r = series_map_get (fst e)
      \<and> (case year (snd e) of None \<Rightarrow> False | Some y \<Rightarrow>
         (case period (snd e) of None \<Rightarrow> False | Some p \<Rightarrow>
         (case item_value (snd e) of None \<Rightarrow> False | Some v \<Rightarrow>
            ''M01'' \<le> p \<and> p \<le> ''M12''
            \<and> py_float py v = Some (Value r)
            \<and> py_int py y = Some (Year r)
            \<and> py_int py (drop 1 p) = Some (Month r)
            \<and> Date r = y @ ''-'' @ fmt02d (Month r) @ ''-01''))))"

definition converted :: "('v, 'd) py \<Rightarrow> ('v, string) row \<Rightarrow> ('v, 'd) row \<Rightarrow> bool" where
  "converted py raw r =
     (to_datetime py (Date raw) = Some (Date r)
      \<and> Series_ID r = Series_ID raw \<and> Series_Name r = Series_Name raw
      \<and> Value r = Value raw \<and> Year r = Year raw \<and> Month r = Month raw)"

definition row_of_entry :: "('v, 'd) py \<Rightarrow> string \<times> item \<Rightarrow> ('v, 'd) row \<Rightarrow> bool" where
  "row_of_entry py e r =
     (Series_ID r = fst e \<and> Series_Name r = series_map_get (fst e)
      \<and> (case year (snd e) of None \<Rightarrow> False | Some y \<Rightarrow>
         (case period (snd e) of None \<Rightarrow> False | Some p \<Rightarrow>
         (case item_value (snd e) of None \<Rightarrow> False | Some v \<Rightarrow>
            ''M01'' \<le> p \<and> p \<le> ''M12''
            \<and> py_float py v = Some (Value r)
            \<and> py_int py y = Some (Year r)
            \<and> py_int py (drop 1 p) = Some (Month r)
            \<and> to_datetime py (y @ ''-'' @ fmt02d (Month r) @ ''-01'') = Some (Date r)))))"

subsection \<open>Example tables\<close>

text \<open>
  Rows for the evaluations: the series identifier stands for the name as well, a timestamp
  is the triple (year, month, day), the values are binary fractions.
\<close>

definition example_row :: "string \<Rightarrow> nat \<Rightarrow> nat \<Rightarrow> rat \<Rightarrow> (rat, nat \<times> nat \<times> nat) row" where
  "example_row name y m v =
     \<lparr>Series_ID = name, Series_Name = name, Date = (y, m, 1), Value = v,
      Year = int y, Month = int m\<rparr>"

definition example_sort ::
  "(rat, nat \<times> nat \<times> nat) row list \<Rightarrow> (rat, nat \<times> nat \<times> nat) row list" where
  "example_sort = sort_key Date"

text \<open>Two series, interleaved and not in the order of their dates.\<close>

definition two_series :: "(rat, nat \<times> nat \<times> nat) row list" where
  "two_series =
     [example_row ''Unemployment Rate'' 2020 3 (7 / 2),
      example_row ''Average Hourly Earnings'' 2020 2 30,
      example_row ''Unemployment Rate'' 2020 1 4,
      example_row ''Average Hourly Earnings'' 2020 1 (59 / 2),
      example_row ''Unemployment Rate'' 2020 2 (15 / 4)]"

text \<open>Thirteen months of one series, followed by one row of another series.\<close>

definition thirteen_months :: "(rat, nat \<times> nat \<times> nat) row list" where
  "thirteen_months =
     map (\<lambda>m. example_row ''CPI (Seasonally Adjusted)'' 2020 m (of_nat (8 * m))) [1 ..< 13]
     @ [example_row ''CPI (Seasonally Adjusted)'' 2021 1 12,
        example_row ''Unemployment Rate'' 2021 1 4]"

text \<open>
  An enriched table whose rows are stored with the newest date first; the three changes
  of every row are present and differ from each other.
\<close>

definition newest_first :: "(rat, nat \<times> nat \<times> nat) erow list" where
  "newest_first =
     [add_columns (example_row ''Unemployment Rate'' 2021 2 (7 / 2)) (Some (- 1 / 2))
        (Some (- 25 / 2)) (Some (- 30)),
      add_columns (example_row ''Average Hourly Earnings'' 2021 2 30) (Some (1 / 2))
        (Some (100 / 59)) (Some 3),
      add_columns (example_row ''Unemployment Rate'' 2021 1 4) (Some (1 / 4))
        (Some (20 / 3)) (Some 60),
      add_columns (example_row ''Average Hourly Earnings'' 2021 1 (59 / 2)) (Some (3 / 2))
        (Some (75 / 14)) (Some 5)]"

subsection \<open>Example responses\<close>

definition example_item :: "string \<Rightarrow> string \<Rightarrow> string \<Rightarrow> item" where
  "example_item y p v = \<lparr>year = Some y, period = Some p, item_value = Some v\<rparr>"

text \<open>A response with the one series \<^verbatim>\<open>LNS14000000\<close> and an empty message list.\<close>

definition example_response :: "string \<Rightarrow> item list \<Rightarrow> response" where
  "example_response st items =
     \<lparr>status = Some st, message = Some [],
      Results = Some \<lparr>series = Some [\<lparr>seriesID = Some ''LNS14000000'', data = Some items\<rparr>]\<rparr>\<rparr>"

text \<open>The same response without the key \<^verbatim>\<open>message\<close>.\<close>

definition example_response_no_message :: "string \<Rightarrow> item list \<Rightarrow> response" where
  "example_response_no_message st items =
     \<lparr>status = Some st, message = None,
      Results = Some \<lparr>series = Some [\<lparr>seriesID = Some ''LNS14000000'', data = Some items\<rparr>]\<rparr>\<rparr>"

definition unemployment_row :: "nat \<Rightarrow> nat \<Rightarrow> rat \<Rightarrow> (rat, nat \<times> nat \<times> nat) row" where
  "unemployment_row y m v =
     \<lparr>Series_ID = ''LNS14000000'', Series_Name = ''Unemployment Rate'', Date = (y, m, 1),
      Value = v, Year = int y, Month = int m\<rparr>"

definition jan_item :: item where
  "jan_item = example_item ''2020'' ''M01'' ''3.5''"

definition mar_item :: item where
  "mar_item = example_item ''2020'' ''M03'' ''4''"

text \<open>An entry of February whose value is no number.\<close>

definition na_item :: item where
  "na_item = example_item ''2020'' ''M02'' ''N/A''"

text \<open>An entry whose value is no number and which has no key \<^verbatim>\<open>year\<close>.\<close>

definition na_item_no_year :: item where
  "na_item_no_year = \<lparr>year = None, period = Some ''M02'', item_value = Some ''N/A''\<rparr>"

text \<open>An entry whose value is parsed and which has no key \<^verbatim>\<open>period\<close>.\<close>

definition item_no_period :: item where
  "item_no_period = \<lparr>year = Some ''2020'', period = None, item_value = Some ''3.5''\<rparr>"

text \<open>A response with a warning status and without the key \<^verbatim>\<open>Results\<close>.\<close>

definition no_results_response :: response where
  "no_results_response =
     \<lparr>status = Some ''REQUEST_NOT_PROCESSED'', message = Some [''no data''], Results = None\<rparr>"

section \<open>Properties of the transformer\<close>


lemma length_shift: "length (shift k xs) = length xs"
  by (simp add: shift_def)

lemma shift_nth:
  "i < length xs \<Longrightarrow> shift k xs ! i = (if i < k then None else Some (xs ! (i - k)))"
  by (simp add: shift_def nth_append)

lemma length_diff: "length (diff xs) = length xs"
  by (simp add: diff_def length_shift)

lemma diff_nth:
  "i < length xs \<Longrightarrow> diff xs ! i = (if i < 1 then None else Some (xs ! i - xs ! (i - 1)))"
  by (simp add: diff_def length_shift shift_nth)

lemma length_pct_change: "length (pct_change k xs) = length xs"
  by (simp add: pct_change_def length_shift)

lemma pct_change_nth:
  "i < length xs \<Longrightarrow>
     pct_change k xs ! i = (if i < k then None else Some (xs ! i / xs ! (i - k) - 1))"
  by (simp add: pct_change_def length_shift shift_nth)

lemma times100_nth:
  "i < length cs \<Longrightarrow> times100 cs ! i = map_option (\<lambda>c. c * 100) (cs ! i)"
  by (simp add: times100_def)

lemma add_columns_sel:
  "Series_ID (add_columns r a b c) = Series_ID r"
  "Series_Name (add_columns r a b c) = Series_Name r"
  "Date (add_columns r a b c) = Date r"
  "Value (add_columns r a b c) = Value r"
  "Year (add_columns r a b c) = Year r"
  "Month (add_columns r a b c) = Month r"
  "MoM_Change (add_columns r a b c) = a"
  "MoM_Pct_Change (add_columns r a b c) = b"
  "YoY_Pct_Change (add_columns r a b c) = c"
  "row.truncate (add_columns r a b c) = r"
  by (simp_all add: add_columns_def row.extend_def erow.fields_def row.truncate_def)

lemma length_process_group: "length (process_group srt g) = length (srt g)"
  by (simp add: process_group_def Let_def)

lemma process_group_nth:
  "i < length (srt g) \<Longrightarrow>
     process_group srt g ! i =
       add_columns (srt g ! i)
         (if i < 1 then None else Some (Value (srt g ! i) - Value (srt g ! (i - 1))))
         (if i < 1 then None
          else Some ((Value (srt g ! i) / Value (srt g ! (i - 1)) - 1) * 100))
         (if i < 12 then None
          else Some ((Value (srt g ! i) / Value (srt g ! (i - 12)) - 1) * 100))"
  by (simp add: process_group_def Let_def diff_nth pct_change_nth times100_nth
      length_pct_change)

lemma truncate_process_group: "map row.truncate (process_group srt g) = srt g"
  by (rule nth_equalityI) (simp_all add: length_process_group process_group_nth add_columns_sel)

lemma sort_values_spec_sort_key: "sort_values_spec (sort_key Date)"
  by (simp add: sort_values_spec_def)

lemma spec_length: "sort_values_spec srt \<Longrightarrow> length (srt g) = length g"
  unfolding sort_values_spec_def by (metis size_mset)

lemma spec_set: "sort_values_spec srt \<Longrightarrow> set (srt g) = set g"
  unfolding sort_values_spec_def by (metis set_mset_mset)

lemma filter_process_group:
  assumes "sort_values_spec srt" and "\<forall>r \<in> set g. Series_Name r = n"
  shows "filter (\<lambda>r. Series_Name r = name) (process_group srt g) =
           (if n = name then process_group srt g else [])"
proof -
  have "\<forall>e \<in> set (process_group srt g). Series_Name e = n"
  proof
    fix e assume "e \<in> set (process_group srt g)"
    then obtain i where i: "i < length (srt g)" and e: "e = process_group srt g ! i"
      by (metis in_set_conv_nth length_process_group)
    have "srt g ! i \<in> set g" using i spec_set [OF assms(1)] nth_mem by blast
    then show "Series_Name e = n"
      using assms(2) i e by (simp add: process_group_nth add_columns_sel)
  qed
  then show ?thesis by (auto simp: filter_empty_conv)
qed

lemma concat_single:
  "distinct ns \<Longrightarrow> n \<in> set ns \<Longrightarrow>
     concat (map (\<lambda>m. if m = n then f m else []) ns) = f n"
  by (induction ns) (auto simp: map_idI)


lemma calculate_changes_Inr:
  "df \<noteq> [] \<Longrightarrow> calculate_changes srt df = Inr (changed srt df)"
proof -
  assume "df \<noteq> []"
  then have "set (sort (remdups (map Series_Name df))) \<noteq> {}" by simp
  then have "sort (remdups (map Series_Name df)) \<noteq> []" by (metis set_empty)
  then show ?thesis
    by (simp add: calculate_changes_def groupby_def changed_def Let_def comp_def)
qed

lemma calculate_changes_Nil: "calculate_changes srt [] = Inl NoObjectsToConcatenate"
  by (simp add: calculate_changes_def groupby_def)

lemma filter_concat_groups:
  assumes "sort_values_spec srt" and "distinct ns"
  shows "filter (\<lambda>r. Series_Name r = name)
           (concat (map (\<lambda>n. process_group srt (filter (\<lambda>r. Series_Name r = n) df)) ns)) =
         (if name \<in> set ns then process_group srt (filter (\<lambda>r. Series_Name r = name) df)
          else [])"
proof -
  have "filter (\<lambda>r. Series_Name r = name)
           (concat (map (\<lambda>n. process_group srt (filter (\<lambda>r. Series_Name r = n) df)) ns)) =
        concat (map (\<lambda>n. if n = name
                          then process_group srt (filter (\<lambda>r. Series_Name r = n) df) else []) ns)"
  proof -
    have h: "\<And>n. filter (\<lambda>r. Series_Name r = name)
              (process_group srt (filter (\<lambda>r. Series_Name r = n) df)) =
            (if n = name then process_group srt (filter (\<lambda>r. Series_Name r = n) df) else [])"
      by (rule filter_process_group [OF assms(1)]) simp
    show ?thesis unfolding filter_concat map_map comp_def h by (rule refl)
  qed
  also have "\<dots> = (if name \<in> set ns
                    then process_group srt (filter (\<lambda>r. Series_Name r = name) df) else [])"
  proof (cases "name \<in> set ns")
    case True
    then show ?thesis
      using concat_single [OF assms(2) True,
          of "\<lambda>n. process_group srt (filter (\<lambda>r. Series_Name r = n) df)"]
      by simp
  next
    case False
    then have "\<And>n. n \<in> set ns \<Longrightarrow> n \<noteq> name" by blast
    then show ?thesis using False by (induction ns) auto
  qed
  finally show ?thesis .
qed

lemma filter_changed:
  assumes "sort_values_spec srt"
  shows "filter (\<lambda>r. Series_Name r = name) (changed srt df) =
           process_group srt (filter (\<lambda>r. Series_Name r = name) df)"
proof (cases "name \<in> set (map Series_Name df)")
  case True
  then show ?thesis
    unfolding changed_def by (simp add: filter_concat_groups [OF assms])
next
  case False
  then have e: "filter (\<lambda>r. Series_Name r = name) df = []"
    by (auto simp: filter_empty_conv)
  have "length (process_group srt []) = 0"
    using spec_length [OF assms, of "[]"] by (simp add: length_process_group)
  then show ?thesis
    unfolding changed_def using False e by (simp add: filter_concat_groups [OF assms])
qed

lemma mset_partition_by_key:
  "distinct ns \<Longrightarrow> f ` set xs \<subseteq> set ns \<Longrightarrow>
     (\<Sum>n\<leftarrow>ns. mset (filter (\<lambda>r. f r = n) xs)) = mset xs"
proof (induction ns arbitrary: xs)
  case Nil
  then show ?case by simp
next
  case (Cons n ns)
  let ?rest = "filter (\<lambda>r. f r \<noteq> n) xs"
  have same: "\<And>m. m \<in> set ns \<Longrightarrow>
      filter (\<lambda>r. f r = m) xs = filter (\<lambda>r. f r = m) ?rest"
    using Cons.prems(1) by (auto intro!: filter_cong)
  have "(\<Sum>m\<leftarrow>ns. mset (filter (\<lambda>r. f r = m) xs)) =
        (\<Sum>m\<leftarrow>ns. mset (filter (\<lambda>r. f r = m) ?rest))"
    by (rule arg_cong [where f = sum_list], rule map_cong [OF refl]) (simp add: same)
  also have "\<dots> = mset ?rest"
    using Cons.prems by (intro Cons.IH) auto
  finally show ?case by simp
qed

lemma mset_changed:
  assumes "sort_values_spec srt"
  shows "mset (map row.truncate (changed srt df)) = mset df"
proof -
  have g: "\<And>g. mset (srt g) = mset g" using assms by (simp add: sort_values_spec_def)
  have "mset (map row.truncate (changed srt df)) =
        (\<Sum>n\<leftarrow>sort (remdups (map Series_Name df)). mset (filter (\<lambda>r. Series_Name r = n) df))"
    unfolding changed_def
    by (simp add: map_concat mset_concat comp_def truncate_process_group g)
  also have "\<dots> = mset df"
    by (rule mset_partition_by_key) auto
  finally show ?thesis .
qed


lemma sorted_process_group:
  assumes "sort_values_spec srt"
  shows "sorted (map Date (process_group srt g))"
proof -
  have "map Date (process_group srt g) = map Date (srt g)"
    by (rule nth_equalityI) (simp_all add: length_process_group process_group_nth add_columns_sel)
  then show ?thesis using assms by (simp add: sort_values_spec_def)
qed

lemma changed_partitions:
  assumes "sort_values_spec srt"
  shows "changed srt df =
     concat (map (\<lambda>n. filter (\<lambda>r. Series_Name r = n) (changed srt df))
       (sort (remdups (map Series_Name df))))"
  unfolding filter_changed [OF assms] by (simp add: changed_def)

lemma sort_values_spec_example_sort: "sort_values_spec example_sort"
  by (simp add: example_sort_def sort_values_spec_def)

lemma Value_process_group_nth:
  "i < length (srt g) \<Longrightarrow> Value (process_group srt g ! i) = Value (srt g ! i)"
  by (simp add: process_group_nth add_columns_sel)

lemma MoM_process_group_nth:
  "i < length (srt g) \<Longrightarrow>
     MoM_Change (process_group srt g ! i) =
       (if i < 1 then None else Some (Value (srt g ! i) - Value (srt g ! (i - 1))))"
  by (simp add: process_group_nth add_columns_sel)

lemma YoY_process_group_nth:
  "i < length (srt g) \<Longrightarrow>
     YoY_Pct_Change (process_group srt g ! i) =
       (if i < 12 then None
        else Some ((Value (srt g ! i) / Value (srt g ! (i - 12)) - 1) * 100))"
  by (simp add: process_group_nth add_columns_sel)

text \<open>
  Claim C1. Let a table have a row of the series \<open>name\<close>. Then \<^verbatim>\<open>calculate_changes\<close>
  returns a table \<open>out\<close> that is the concatenation of its per-series partitions. The
  partition \<open>part\<close> of \<open>name\<close> holds the input rows of that series sorted by date
  ascending; its first row has no \<^verbatim>\<open>MoM Change\<close>, and at every later index \<open>i\<close> the
  \<^verbatim>\<open>MoM Change\<close> is the value at \<open>i\<close> minus the value at \<open>i - 1\<close> of the same
  partition. So the lag never reaches into another series, and every series starts
  again with an undefined change at its own index 0.
\<close>

theorem mom_change_per_series:
  assumes "sort_values_spec srt" and "name \<in> Series_Name ` set df"
  shows "\<exists>out part. calculate_changes srt df = Inr out
     \<and> out = concat (map (\<lambda>n. filter (\<lambda>r. Series_Name r = n) out)
                 (sort (remdups (map Series_Name df))))
     \<and> part = filter (\<lambda>r. Series_Name r = name) out
     \<and> map row.truncate part = srt (filter (\<lambda>r. Series_Name r = name) df)
     \<and> sorted (map Date part)
     \<and> part \<noteq> []
     \<and> MoM_Change (part ! 0) = None
     \<and> (\<forall>i. 1 \<le> i \<and> i < length part \<longrightarrow>
           MoM_Change (part ! i) = Some (Value (part ! i) - Value (part ! (i - 1))))"
proof -
  let ?g = "filter (\<lambda>r. Series_Name r = name) df"
  let ?part = "process_group srt ?g"
  from assms(2) have ne: "df \<noteq> []" by auto
  from assms(2) have "?g \<noteq> []" by (auto simp: filter_empty_conv)
  then have len: "0 < length (srt ?g)" using spec_length [OF assms(1), of ?g] by simp
  have b: "filter (\<lambda>r. Series_Name r = name) (changed srt df) = ?part"
    by (rule filter_changed [OF assms(1)])
  have g: "MoM_Change (?part ! i) = Some (Value (?part ! i) - Value (?part ! (i - 1)))"
    if "1 \<le> i \<and> i < length ?part" for i
  proof -
    from that have i: "i < length (srt ?g)" "i - 1 < length (srt ?g)" "\<not> i < 1"
      by (auto simp: length_process_group)
    show ?thesis
      using i by (simp add: MoM_process_group_nth Value_process_group_nth)
  qed
  show ?thesis
  proof (intro exI conjI)
    show "calculate_changes srt df = Inr (changed srt df)"
      by (rule calculate_changes_Inr [OF ne])
    show "changed srt df =
      concat (map (\<lambda>n. filter (\<lambda>r. Series_Name r = n) (changed srt df))
        (sort (remdups (map Series_Name df))))"
      by (rule changed_partitions [OF assms(1)])
    show "?part = filter (\<lambda>r. Series_Name r = name) (changed srt df)"
      by (rule b [symmetric])
    show "map row.truncate ?part = srt ?g" by (rule truncate_process_group)
    show "sorted (map Date ?part)" by (rule sorted_process_group [OF assms(1)])
    show "?part \<noteq> []" using len length_process_group [of srt ?g] by auto
    show "MoM_Change (?part ! 0) = None"
      using len by (simp add: MoM_process_group_nth)
    show "\<forall>i. 1 \<le> i \<and> i < length ?part \<longrightarrow>
           MoM_Change (?part ! i) = Some (Value (?part ! i) - Value (?part ! (i - 1)))"
      using g by blast
  qed
qed

theorem mom_change_per_series_witness:
  "sort_values_spec example_sort
   \<and> ''Unemployment Rate'' \<in> Series_Name ` set two_series
   \<and> (\<exists>out part. calculate_changes example_sort two_series = Inr out
     \<and> out = concat (map (\<lambda>n. filter (\<lambda>r. Series_Name r = n) out)
                 (sort (remdups (map Series_Name two_series))))
     \<and> part = filter (\<lambda>r. Series_Name r = ''Unemployment Rate'') out
     \<and> map row.truncate part =
         example_sort (filter (\<lambda>r. Series_Name r = ''Unemployment Rate'') two_series)
     \<and> sorted (map Date part)
     \<and> part \<noteq> []
     \<and> MoM_Change (part ! 0) = None
     \<and> (\<forall>i. 1 \<le> i \<and> i < length part \<longrightarrow>
           MoM_Change (part ! i) = Some (Value (part ! i) - Value (part ! (i - 1)))))"
proof -
  have h1: "sort_values_spec example_sort" by (rule sort_values_spec_example_sort)
  have h2: "''Unemployment Rate'' \<in> Series_Name ` set two_series"
    by (simp add: two_series_def example_row_def)
  show ?thesis
    by (rule conjI [OF h1 conjI [OF h2 mom_change_per_series [OF h1 h2]]])
qed

text \<open>
  Claim C2. In the partition of every series of the table, sorted by date ascending,
  the \<^verbatim>\<open>YoY % Change\<close> is undefined at every index below 12 and is
  \<open>(value[i] / value[i - 12] - 1) * 100\<close> at every index \<open>i\<close> from 12 on, both values
  taken from that partition.
\<close>

theorem yoy_pct_change_per_series:
  assumes "sort_values_spec srt" and "name \<in> Series_Name ` set df"
  shows "\<exists>out part. calculate_changes srt df = Inr out
     \<and> part = filter (\<lambda>r. Series_Name r = name) out
     \<and> map row.truncate part = srt (filter (\<lambda>r. Series_Name r = name) df)
     \<and> sorted (map Date part)
     \<and> (\<forall>i. i < length part \<and> i < 12 \<longrightarrow> YoY_Pct_Change (part ! i) = None)
     \<and> (\<forall>i. 12 \<le> i \<and> i < length part \<longrightarrow>
           YoY_Pct_Change (part ! i) =
             Some ((Value (part ! i) / Value (part ! (i - 12)) - 1) * 100))"
proof -
  let ?g = "filter (\<lambda>r. Series_Name r = name) df"
  let ?part = "process_group srt ?g"
  from assms(2) have ne: "df \<noteq> []" by auto
  have b: "filter (\<lambda>r. Series_Name r = name) (changed srt df) = ?part"
    by (rule filter_changed [OF assms(1)])
  have f: "YoY_Pct_Change (?part ! i) = None" if "i < length ?part \<and> i < 12" for i
    using that by (simp add: length_process_group YoY_process_group_nth)
  have g: "YoY_Pct_Change (?part ! i) =
             Some ((Value (?part ! i) / Value (?part ! (i - 12)) - 1) * 100)"
    if "12 \<le> i \<and> i < length ?part" for i
  proof -
    from that have i: "i < length (srt ?g)" "i - 12 < length (srt ?g)" "\<not> i < 12"
      by (auto simp: length_process_group)
    show ?thesis
      using i by (simp add: YoY_process_group_nth Value_process_group_nth)
  qed
  show ?thesis
  proof (intro exI conjI)
    show "calculate_changes srt df = Inr (changed srt df)"
      by (rule calculate_changes_Inr [OF ne])
    show "?part = filter (\<lambda>r. Series_Name r = name) (changed srt df)"
      by (rule b [symmetric])
    show "map row.truncate ?part = srt ?g" by (rule truncate_process_group)
    show "sorted (map Date ?part)" by (rule sorted_process_group [OF assms(1)])
    show "\<forall>i. i < length ?part \<and> i < 12 \<longrightarrow> YoY_Pct_Change (?part ! i) = None"
      using f by blast
    show "\<forall>i. 12 \<le> i \<and> i < length ?part \<longrightarrow>
           YoY_Pct_Change (?part ! i) =
             Some ((Value (?part ! i) / Value (?part ! (i - 12)) - 1) * 100)"
      using g by blast
  qed
qed

theorem yoy_pct_change_per_series_witness:
  "sort_values_spec example_sort
   \<and> ''CPI (Seasonally Adjusted)'' \<in> Series_Name ` set thirteen_months
   \<and> (\<exists>out part. calculate_changes example_sort thirteen_months = Inr out
     \<and> part = filter (\<lambda>r. Series_Name r = ''CPI (Seasonally Adjusted)'') out
     \<and> map row.truncate part =
         example_sort (filter (\<lambda>r. Series_Name r = ''CPI (Seasonally Adjusted)'') thirteen_months)
     \<and> sorted (map Date part)
     \<and> (\<forall>i. i < length part \<and> i < 12 \<longrightarrow> YoY_Pct_Change (part ! i) = None)
     \<and> (\<forall>i. 12 \<le> i \<and> i < length part \<longrightarrow>
           YoY_Pct_Change (part ! i) =
             Some ((Value (part ! i) / Value (part ! (i - 12)) - 1) * 100)))"
proof -
  have h1: "sort_values_spec example_sort" by (rule sort_values_spec_example_sort)
  have h2: "''CPI (Seasonally Adjusted)'' \<in> Series_Name ` set thirteen_months"
    by (simp add: thirteen_months_def example_row_def)
  show ?thesis
    by (rule conjI [OF h1 conjI [OF h2 yoy_pct_change_per_series [OF h1 h2]]])
qed

lemma key_truncate:
  "map (\<lambda>r. (Series_Name r, Date r)) (map row.truncate out) =
     map (\<lambda>r. (Series_Name r, Date r)) out"
  by (simp add: row.truncate_def)

text \<open>
  Claim C7, as stated, for every input table: on the table without rows there is no
  group, \<^verbatim>\<open>pd.concat\<close> is given the empty list and raises, and no table is returned.
\<close>

theorem calculate_changes_empty_table_raises:
  "calculate_changes example_sort [] = Inl NoObjectsToConcatenate"
  by (simp add: calculate_changes_def groupby_def)

text \<open>
  Claim C7, amended: for every table with at least one row, \<^verbatim>\<open>calculate_changes\<close>
  returns a table with the same number of rows and the same multiset of
  (series name, date) pairs; dropping the three new columns gives back the multiset of
  the input rows; and the rows of every series stand in ascending order of their dates.
\<close>

theorem calculate_changes_preserves_rows:
  assumes "sort_values_spec srt" and "df \<noteq> []"
  shows "\<exists>out. calculate_changes srt df = Inr out
     \<and> length out = length df
     \<and> mset (map (\<lambda>r. (Series_Name r, Date r)) out) =
         mset (map (\<lambda>r. (Series_Name r, Date r)) df)
     \<and> mset (map row.truncate out) = mset df
     \<and> (\<forall>name. sorted (map Date (filter (\<lambda>r. Series_Name r = name) out)))"
proof -
  let ?out = "changed srt df"
  have m: "mset (map row.truncate ?out) = mset df"
    by (rule mset_changed [OF assms(1)])
  have "size (mset (map row.truncate ?out)) = size (mset df)"
    by (simp only: m)
  then have l: "length ?out = length df" by simp
  have "image_mset (\<lambda>r. (Series_Name r, Date r)) (mset (map row.truncate ?out)) =
        image_mset (\<lambda>r. (Series_Name r, Date r)) (mset df)"
    by (simp only: m)
  then have "mset (map (\<lambda>r. (Series_Name r, Date r)) (map row.truncate ?out)) =
        mset (map (\<lambda>r. (Series_Name r, Date r)) df)"
    by (simp only: mset_map)
  then have k: "mset (map (\<lambda>r. (Series_Name r, Date r)) ?out) =
        mset (map (\<lambda>r. (Series_Name r, Date r)) df)"
    by (simp only: key_truncate)
  have s: "sorted (map Date (filter (\<lambda>r. Series_Name r = name) ?out))" for name
    by (simp only: filter_changed [OF assms(1)] sorted_process_group [OF assms(1)])
  show ?thesis
  proof (intro exI conjI)
    show "calculate_changes srt df = Inr ?out"
      by (rule calculate_changes_Inr [OF assms(2)])
    show "length ?out = length df" by (rule l)
    show "mset (map (\<lambda>r. (Series_Name r, Date r)) ?out) =
        mset (map (\<lambda>r. (Series_Name r, Date r)) df)" by (rule k)
    show "mset (map row.truncate ?out) = mset df" by (rule m)
    show "\<forall>name. sorted (map Date (filter (\<lambda>r. Series_Name r = name) ?out))"
      using s by blast
  qed
qed

theorem calculate_changes_preserves_rows_witness:
  "sort_values_spec example_sort \<and> two_series \<noteq> []
   \<and> (\<exists>out. calculate_changes example_sort two_series = Inr out
     \<and> length out = length two_series
     \<and> mset (map (\<lambda>r. (Series_Name r, Date r)) out) =
         mset (map (\<lambda>r. (Series_Name r, Date r)) two_series)
     \<and> mset (map row.truncate out) = mset two_series
     \<and> (\<forall>name. sorted (map Date (filter (\<lambda>r. Series_Name r = name) out))))"
proof -
  have h1: "sort_values_spec example_sort" by (rule sort_values_spec_example_sort)
  have h2: "two_series \<noteq> []" by (simp add: two_series_def)
  show ?thesis
    by (rule conjI [OF h1 conjI [OF h2 calculate_changes_preserves_rows [OF h1 h2]]])
qed

lemma last_filter_index:
  "filter P xs \<noteq> [] \<Longrightarrow>
     \<exists>i<length xs. P (xs ! i) \<and> (\<forall>j. i < j \<and> j < length xs \<longrightarrow> \<not> P (xs ! j))
        \<and> last (filter P xs) = xs ! i"
proof (induction xs rule: rev_induct)
  case Nil
  then show ?case by simp
next
  case (snoc x xs)
  show ?case
  proof (cases "P x")
    case True
    then show ?thesis by (intro exI [of _ "length xs"]) auto
  next
    case False
    with snoc.prems have "filter P xs \<noteq> []" by simp
    from snoc.IH [OF this] obtain i where i: "i < length xs" "P (xs ! i)"
      "\<forall>j. i < j \<and> j < length xs \<longrightarrow> \<not> P (xs ! j)" "last (filter P xs) = xs ! i"
      by blast
    have "\<forall>j. i < j \<and> j < length (xs @ [x]) \<longrightarrow> \<not> P ((xs @ [x]) ! j)"
      using i(3) False by (auto simp: nth_append)
    then show ?thesis
      using i False by (intro exI [of _ i]) (simp add: nth_append)
  qed
qed

text \<open>
  Claim C5, as stated, for every table: the frame without columns, which \<^verbatim>\<open>fetch_data\<close>
  returns on a failure, has no row of any series, and on it \<^verbatim>\<open>get_latest_metrics\<close>
  raises \<^verbatim>\<open>KeyError\<close> at \<^verbatim>\<open>df['Series Name']\<close> and returns nothing.
\<close>

theorem get_latest_metrics_raises_without_columns:
  "get_latest_metrics (NoColumns :: (rat, nat \<times> nat \<times> nat) frame) ''Unemployment Rate'' =
     Inl (KeyError ''Series Name'')"
  by (simp add: get_latest_metrics_def)

text \<open>
  Claim C5, amended: for every table that has the columns of an enriched table, and every
  series name. If the table has no row of the series, \<^verbatim>\<open>get_latest_metrics\<close> returns
  \<^verbatim>\<open>None\<close>, not an exception. Otherwise it returns the date, the value, the
  \<^verbatim>\<open>MoM Change\<close>, the \<^verbatim>\<open>MoM % Change\<close> and the \<^verbatim>\<open>YoY % Change\<close> of the row at
  the last position of the table that holds the series: no later position holds it, and
  the dates play no part in the choice.
\<close>

theorem get_latest_metrics_last_stored:
  "(name \<notin> Series_Name ` set df \<longrightarrow> get_latest_metrics (Enriched df) name = Inr None) \<and>
   (name \<in> Series_Name ` set df \<longrightarrow>
      (\<exists>i<length df. Series_Name (df ! i) = name
         \<and> (\<forall>j. i < j \<and> j < length df \<longrightarrow> Series_Name (df ! j) \<noteq> name)
         \<and> get_latest_metrics (Enriched df) name =
             Inr (Some \<lparr>date = Date (df ! i),
                         latest_value = Value (df ! i),
                         mom_change = MoM_Change (df ! i),
                         mom_pct_change = MoM_Pct_Change (df ! i),
                         yoy_pct_change = YoY_Pct_Change (df ! i)\<rparr>)))"
proof (intro conjI impI)
  assume "name \<notin> Series_Name ` set df"
  then have "filter (\<lambda>r. Series_Name r = name) df = []"
    by (auto simp: filter_empty_conv)
  then show "get_latest_metrics (Enriched df) name = Inr None"
    by (simp add: get_latest_metrics_def)
next
  assume "name \<in> Series_Name ` set df"
  then have ne: "filter (\<lambda>r. Series_Name r = name) df \<noteq> []"
    by (auto simp: filter_empty_conv)
  from last_filter_index [OF this] obtain i where
    "i < length df" "Series_Name (df ! i) = name"
    "\<forall>j. i < j \<and> j < length df \<longrightarrow> Series_Name (df ! j) \<noteq> name"
    "last (filter (\<lambda>r. Series_Name r = name) df) = df ! i"
    by blast
  then show "\<exists>i<length df. Series_Name (df ! i) = name
         \<and> (\<forall>j. i < j \<and> j < length df \<longrightarrow> Series_Name (df ! j) \<noteq> name)
         \<and> get_latest_metrics (Enriched df) name =
             Inr (Some \<lparr>date = Date (df ! i),
                         latest_value = Value (df ! i),
                         mom_change = MoM_Change (df ! i),
                         mom_pct_change = MoM_Pct_Change (df ! i),
                         yoy_pct_change = YoY_Pct_Change (df ! i)\<rparr>)"
    using ne by (intro exI [of _ i]) (simp add: get_latest_metrics_def Let_def)
qed

text \<open>
  On a table stored with the newest date first, the row returned for the unemployment
  rate is the last stored one of that series, of January (position 2), with its own three
  changes, and not the one with the greatest date, of February (position 0); a series
  without rows gives \<^verbatim>\<open>None\<close>.
\<close>

theorem get_latest_metrics_last_stored_witness:
  "''Unemployment Rate'' \<in> Series_Name ` set newest_first
   \<and> ''CPI (Seasonally Adjusted)'' \<notin> Series_Name ` set newest_first
   \<and> get_latest_metrics (Enriched newest_first) ''CPI (Seasonally Adjusted)'' = Inr None
   \<and> (\<exists>i<length newest_first. Series_Name (newest_first ! i) = ''Unemployment Rate''
         \<and> (\<forall>j. i < j \<and> j < length newest_first \<longrightarrow>
               Series_Name (newest_first ! j) \<noteq> ''Unemployment Rate'')
         \<and> get_latest_metrics (Enriched newest_first) ''Unemployment Rate'' =
             Inr (Some \<lparr>date = Date (newest_first ! i),
                         latest_value = Value (newest_first ! i),
                         mom_change = MoM_Change (newest_first ! i),
                         mom_pct_change = MoM_Pct_Change (newest_first ! i),
                         yoy_pct_change = YoY_Pct_Change (newest_first ! i)\<rparr>))
   \<and> get_latest_metrics (Enriched newest_first) ''Unemployment Rate'' =
       Inr (Some \<lparr>date = (2021, 1, 1), latest_value = 4, mom_change = Some (1 / 4),
                   mom_pct_change = Some (20 / 3), yoy_pct_change = Some 60\<rparr>)
   \<and> Date (newest_first ! 0) = (2021, 2, 1)
   \<and> Series_Name (newest_first ! 0) = ''Unemployment Rate''"
proof -
  note ex = newest_first_def example_row_def add_columns_sel
  have h: "''Unemployment Rate'' \<in> Series_Name ` set newest_first"
    by (simp add: ex)
  have n: "''CPI (Seasonally Adjusted)'' \<notin> Series_Name ` set newest_first"
    by (simp add: ex)
  have e: "get_latest_metrics (Enriched newest_first) ''Unemployment Rate'' =
       Inr (Some \<lparr>date = (2021, 1, 1), latest_value = 4, mom_change = Some (1 / 4),
                   mom_pct_change = Some (20 / 3), yoy_pct_change = Some 60\<rparr>)"
    by (simp add: get_latest_metrics_def ex)
  have d: "Date (newest_first ! 0) = (2021, 2, 1)
      \<and> Series_Name (newest_first ! 0) = ''Unemployment Rate''"
    by (simp add: ex)
  from get_latest_metrics_last_stored [of "''CPI (Seasonally Adjusted)''" newest_first] n
  have a: "get_latest_metrics (Enriched newest_first) ''CPI (Seasonally Adjusted)'' = Inr None"
    by (rule conjunct1 [THEN mp])
  from get_latest_metrics_last_stored [of "''Unemployment Rate''" newest_first] h
  have b: "\<exists>i<length newest_first. Series_Name (newest_first ! i) = ''Unemployment Rate''
         \<and> (\<forall>j. i < j \<and> j < length newest_first \<longrightarrow>
               Series_Name (newest_first ! j) \<noteq> ''Unemployment Rate'')
         \<and> get_latest_metrics (Enriched newest_first) ''Unemployment Rate'' =
             Inr (Some \<lparr>date = Date (newest_first ! i),
                         latest_value = Value (newest_first ! i),
                         mom_change = MoM_Change (newest_first ! i),
                         mom_pct_change = MoM_Pct_Change (newest_first ! i),
                         yoy_pct_change = YoY_Pct_Change (newest_first ! i)\<rparr>)"
    by (rule conjunct2 [THEN mp])
  from h n a b e d show ?thesis by (intro conjI) simp_all
qed

section \<open>Properties of the fetcher\<close>

subsection \<open>Evaluation and the loops\<close>

lemmas eval_defs = fetch_data_def fetch_data_try_def process_data_def process_series_def
  process_item_def example_response_def example_response_no_message_def example_item_def
  series_map_get_def series_map_def py0_def dec_int_def dec_float_def dec_nat_def is_digit_def
  iso_date_def fmt02d_def str_nat.simps sort_values_name_date_def unemployment_row_def Let_def
  jan_item_def mar_item_def na_item_def na_item_no_year_def item_no_period_def
  no_results_response_def





lemma process_item_lacks:
  "year it = None \<or> period it = None \<or> item_value it = None \<Longrightarrow>
     \<exists>e. process_item py sid sn acc it = Inl e"
  by (auto simp: process_item_def split: option.splits)

lemma process_items_lacks:
  "it \<in> set items \<Longrightarrow> year it = None \<or> period it = None \<or> item_value it = None \<Longrightarrow>
     \<exists>e. process_items py sid sn acc items = Inl e"
proof (induction items arbitrary: acc)
  case Nil
  then show ?case by simp
next
  case (Cons a items)
  show ?case
  proof (cases "process_item py sid sn acc a")
    case (Inl e)
    then show ?thesis by simp
  next
    case (Inr acc')
    with process_item_lacks [of a py sid sn acc] Cons.prems have "it \<noteq> a" by auto
    with Cons.prems have "it \<in> set items" by simp
    from Cons.IH [OF this Cons.prems(2), of acc'] Inr show ?thesis by simp
  qed
qed

lemma process_series_lacks:
  assumes "seriesID s = None \<or> data s = None
     \<or> (\<exists>items it. data s = Some items \<and> it \<in> set items
           \<and> (year it = None \<or> period it = None \<or> item_value it = None))"
  shows "\<exists>e. process_series py acc s = Inl e"
proof (cases "seriesID s")
  case None
  then show ?thesis by (simp add: process_series_def)
next
  case (Some sid)
  show ?thesis
  proof (cases "data s")
    case None
    with Some show ?thesis by (simp add: process_series_def)
  next
    case (Some items)
    with assms \<open>seriesID s = Some sid\<close> obtain it where
      "it \<in> set items" "year it = None \<or> period it = None \<or> item_value it = None"
      by auto
    from process_items_lacks [OF this, of py sid "series_map_get sid" acc]
    show ?thesis using Some \<open>seriesID s = Some sid\<close> by (simp add: process_series_def)
  qed
qed

lemma process_series_list_lacks:
  assumes "s \<in> set ss"
    and "seriesID s = None \<or> data s = None
     \<or> (\<exists>items it. data s = Some items \<and> it \<in> set items
           \<and> (year it = None \<or> period it = None \<or> item_value it = None))"
  shows "\<exists>e. process_series_list py acc ss = Inl e"
  using assms(1)
proof (induction ss arbitrary: acc)
  case Nil
  then show ?case by simp
next
  case (Cons a ss)
  show ?case
  proof (cases "process_series py acc a")
    case (Inl e)
    then show ?thesis by simp
  next
    case (Inr acc')
    with process_series_lacks [OF assms(2), of py acc] have "s \<noteq> a" by auto
    with Cons.prems have "s \<in> set ss" by simp
    from Cons.IH [OF this, of acc'] Inr show ?thesis by simp
  qed
qed


lemma fetch_data_process_data_raise:
  assumes "process_data py j = Inl e"
  shows "snd (fetch_data py (Body j)) = []"
  using assms by (simp add: fetch_data_def fetch_data_try_def split: option.splits)

lemma process_item_Inr:
  assumes "process_item py sid (series_map_get sid) acc it = Inr r"
  shows "if accepted py it then (\<exists>row. r = acc @ [row] \<and> raw_row_of py (sid, it) row)
         else r = acc"
  using assms
  by (auto simp: process_item_def accepted_def raw_row_of_def Let_def
      split: option.splits if_splits)

lemma process_items_Inr:
  "process_items py sid (series_map_get sid) acc items = Inr r \<Longrightarrow>
     \<exists>rows. r = acc @ rows
        \<and> list_all2 (raw_row_of py) (map (Pair sid) (filter (accepted py) items)) rows"
proof (induction items arbitrary: acc)
  case Nil
  then show ?case by simp
next
  case (Cons it items)
  from Cons.prems obtain acc' where
    a: "process_item py sid (series_map_get sid) acc it = Inr acc'"
    and b: "process_items py sid (series_map_get sid) acc' items = Inr r"
    by (auto split: sum.splits)
  from Cons.IH [OF b] obtain rows where
    rows: "r = acc' @ rows"
      "list_all2 (raw_row_of py) (map (Pair sid) (filter (accepted py) items)) rows"
    by blast
  show ?case
  proof (cases "accepted py it")
    case True
    with process_item_Inr [OF a] obtain row where
      "acc' = acc @ [row]" "raw_row_of py (sid, it) row" by auto
    with rows True show ?thesis by (intro exI [of _ "row # rows"]) simp
  next
    case False
    with process_item_Inr [OF a] have "acc' = acc" by simp
    with rows False show ?thesis by (intro exI [of _ rows]) simp
  qed
qed

lemma process_series_Inr:
  assumes "process_series py acc s = Inr r"
  shows "\<exists>rows. r = acc @ rows \<and> list_all2 (raw_row_of py) (series_entries py s) rows"
proof -
  from assms obtain sid items where s: "seriesID s = Some sid" "data s = Some items"
    and p: "process_items py sid (series_map_get sid) acc items = Inr r"
    by (auto simp: process_series_def Let_def split: option.splits)
  from process_items_Inr [OF p] s show ?thesis by (simp add: series_entries_def)
qed

lemma process_series_list_Inr:
  "process_series_list py acc ss = Inr r \<Longrightarrow>
     \<exists>rows. r = acc @ rows
        \<and> list_all2 (raw_row_of py) (concat (map (series_entries py) ss)) rows"
proof (induction ss arbitrary: acc)
  case Nil
  then show ?case by simp
next
  case (Cons s ss)
  from Cons.prems obtain acc' where
    a: "process_series py acc s = Inr acc'"
    and b: "process_series_list py acc' ss = Inr r"
    by (auto split: sum.splits)
  from process_series_Inr [OF a] obtain rows1 where
    r1: "acc' = acc @ rows1" "list_all2 (raw_row_of py) (series_entries py s) rows1"
    by blast
  from Cons.IH [OF b] obtain rows2 where
    r2: "r = acc' @ rows2"
      "list_all2 (raw_row_of py) (concat (map (series_entries py) ss)) rows2"
    by blast
  from r1 r2 show ?case
    by (intro exI [of _ "rows1 @ rows2"]) (simp add: list_all2_appendI)
qed

lemma convert_dates_Inr:
  "convert_dates py raws = Inr df \<Longrightarrow> list_all2 (converted py) raws df"
proof (induction raws arbitrary: df)
  case Nil
  then show ?case by simp
next
  case (Cons r raws)
  from Cons.prems obtain d df' where
    "to_datetime py (Date r) = Some d" "convert_dates py raws = Inr df'"
    "df = \<lparr>Series_ID = Series_ID r, Series_Name = Series_Name r, Date = d,
           Value = Value r, Year = Year r, Month = Month r\<rparr> # df'"
    by (auto split: option.splits sum.splits)
  with Cons.IH [of df'] show ?case by (simp add: converted_def)
qed

lemma row_of_entry_compose:
  "raw_row_of py e raw \<Longrightarrow> converted py raw r \<Longrightarrow> row_of_entry py e r"
  by (auto simp: raw_row_of_def converted_def row_of_entry_def split: option.splits)

lemma process_data_Inr:
  assumes "process_data py j = Inr out"
  shows "\<exists>rows. list_all2 (row_of_entry py) (accepted_entries py j) rows
           \<and> out = sort_values_name_date rows"
proof (cases "Results j")
  case None
  with assms show ?thesis
    by (simp add: process_data_def accepted_entries_def response_series_def
        sort_values_name_date_def)
next
  case (Some res)
  show ?thesis
  proof (cases "series res")
    case None
    with Some assms show ?thesis
      by (simp add: process_data_def accepted_entries_def response_series_def
          sort_values_name_date_def)
  next
    case ss: (Some ss)
    from assms Some ss obtain all_data where
      a: "process_series_list py [] ss = Inr all_data"
      by (auto simp: process_data_def split: sum.splits)
    from process_series_list_Inr [OF a] have
      raw: "list_all2 (raw_row_of py) (accepted_entries py j) all_data"
      using Some ss by (simp add: accepted_entries_def response_series_def)
    show ?thesis
    proof (cases "all_data = []")
      case True
      with assms Some ss a have "out = []" by (simp add: process_data_def)
      with raw True show ?thesis
        by (intro exI [of _ "[]"]) (simp add: sort_values_name_date_def)
    next
      case False
      with assms Some ss a obtain df where
        c: "convert_dates py all_data = Inr df" and o: "out = sort_values_name_date df"
        by (auto simp: process_data_def split: sum.splits)
      from raw convert_dates_Inr [OF c]
      have "list_all2 (row_of_entry py) (accepted_entries py j) df"
        by (rule list_all2_trans [rotated]) (rule row_of_entry_compose)
      with o show ?thesis by blast
    qed
  qed
qed

lemma fetch_data_try_Inr:
  "fetch_data_try py (Body j) = (printed, Inr out) \<Longrightarrow> process_data py j = Inr out"
  by (auto simp: fetch_data_try_def split: option.splits if_splits)

subsection \<open>The period filter\<close>

text \<open>
  Claim C3 says that an observation appears in the output only if its period code is one
  of \<^verbatim>\<open>M01\<close> to \<^verbatim>\<open>M12\<close>. The test \<^verbatim>\<open>'M01' <= period <= 'M12'\<close> compares strings:
  the code \<^verbatim>\<open>M011\<close> lies between the two bounds, \<^verbatim>\<open>int('011')\<close> is 11, and the
  observation is returned as one of November.
\<close>

theorem period_M011_is_kept:
  "''M011'' \<notin> set [''M01'', ''M02'', ''M03'', ''M04'', ''M05'', ''M06'',
                     ''M07'', ''M08'', ''M09'', ''M10'', ''M11'', ''M12'']
   \<and> fetch_data py0
        (Body (example_response ''REQUEST_SUCCEEDED'' [example_item ''2020'' ''M011'' ''3.5''])) =
      ([], [unemployment_row 2020 11 (7 / 2)])"
  by (simp add: eval_defs)

subsection \<open>Failures of the request and of the response shape\<close>



subsection \<open>Missing keys\<close>

text \<open>
  Claim C10. If some series object of the response lacks \<^verbatim>\<open>seriesID\<close> or
  \<^verbatim>\<open>data\<close>, or some data item lacks \<^verbatim>\<open>year\<close>, \<^verbatim>\<open>period\<close> or \<^verbatim>\<open>value\<close>, then
  \<^verbatim>\<open>_process_data\<close> raises and \<^verbatim>\<open>fetch_data\<close> returns the empty table for the whole
  batch.
\<close>

theorem missing_key_discards_batch:
  assumes "Results j = Some res" and "series res = Some ss" and "s \<in> set ss"
    and "seriesID s = None \<or> data s = None
     \<or> (\<exists>items it. data s = Some items \<and> it \<in> set items
           \<and> (year it = None \<or> period it = None \<or> item_value it = None))"
  shows "(\<exists>e. process_data py j = Inl e) \<and> snd (fetch_data py (Body j)) = []"
proof -
  from process_series_list_lacks [OF assms(3,4), of py "[]"]
  obtain e where "process_series_list py [] ss = Inl e" by blast
  then have e: "process_data py j = Inl e"
    using assms(1,2) by (simp add: process_data_def)
  from fetch_data_process_data_raise [OF e] e show ?thesis by blast
qed

theorem missing_key_discards_batch_witness:
  "item_no_period \<in> set [jan_item, item_no_period, mar_item]
   \<and> period item_no_period = None
   \<and> (\<exists>e. process_data py0
             (example_response ''REQUEST_SUCCEEDED'' [jan_item, item_no_period, mar_item]) = Inl e)
   \<and> snd (fetch_data py0
        (Body (example_response ''REQUEST_SUCCEEDED'' [jan_item, item_no_period, mar_item]))) = []
   \<and> snd (fetch_data py0 (Body (example_response ''REQUEST_SUCCEEDED'' [jan_item, mar_item]))) =
       [unemployment_row 2020 1 (7 / 2), unemployment_row 2020 3 4]"
proof -
  let ?s = "\<lparr>seriesID = Some ''LNS14000000'',
             data = Some [jan_item, item_no_period, mar_item]\<rparr>"
  let ?j = "example_response ''REQUEST_SUCCEEDED'' [jan_item, item_no_period, mar_item]"
  have h1: "Results ?j = Some \<lparr>series = Some [?s]\<rparr>" by (simp add: example_response_def)
  have h2: "series \<lparr>series = Some [?s]\<rparr> = Some [?s]" by simp
  have h3: "?s \<in> set [?s]" by simp
  have m: "item_no_period \<in> set [jan_item, item_no_period, mar_item]" by simp
  have p: "period item_no_period = None" by (simp add: item_no_period_def)
  have h4: "seriesID ?s = None \<or> data ?s = None
     \<or> (\<exists>items it. data ?s = Some items \<and> it \<in> set items
           \<and> (year it = None \<or> period it = None \<or> item_value it = None))"
    using m p by auto
  have e: "snd (fetch_data py0 (Body (example_response ''REQUEST_SUCCEEDED'' [jan_item, mar_item]))) =
       [unemployment_row 2020 1 (7 / 2), unemployment_row 2020 3 4]"
    by (simp add: eval_defs)
  from missing_key_discards_batch [OF h1 h2 h3 h4, of py0] m p e
  show ?thesis by (intro conjI) simp_all
qed

subsection \<open>Values that are no numbers\<close>

text \<open>
  The item is read and its month converted (lines 61 to 67) before its value is parsed
  (line 71). When the month conversion raises, it raises whatever the value is: the value
  plays no part in the loss of the batch.
\<close>

lemma month_conversion_raises_whatever_the_value:
  assumes "year b = Some y" and "period b = Some p" and "item_value b = Some v"
    and "''M01'' \<le> p \<and> p \<le> ''M12''" and "py_int py (drop 1 p) = None"
  shows "process_item py sid sn acc (b\<lparr>item_value := Some v'\<rparr>) = Inl (ValueError (drop 1 p))"
  using assms by (simp add: process_item_def)



subsection \<open>A status that is not the success value\<close>

text \<open>
  Claim C8 says that a response whose status is not \<^verbatim>\<open>REQUEST_SUCCEEDED\<close> is still
  parsed. The message is printed with \<^verbatim>\<open>json_data['message']\<close>: when the response
  has no key \<^verbatim>\<open>message\<close>, this raises \<^verbatim>\<open>KeyError\<close> before \<^verbatim>\<open>_process_data\<close> is
  called, and the empty table is returned although \<^verbatim>\<open>_process_data\<close> yields the January
  row on the same response.
\<close>

theorem soft_error_without_message_discards_data:
  "fetch_data py0 (Body (example_response_no_message ''REQUEST_NOT_PROCESSED'' [jan_item])) =
     ([ErrorFetchingData (KeyError ''message'')], [])
   \<and> process_data py0 (example_response_no_message ''REQUEST_NOT_PROCESSED'' [jan_item]) =
       Inr [unemployment_row 2020 1 (7 / 2)]"
  by (simp add: eval_defs)

lemma soft_error_with_message_is_parsed:
  assumes "status j = Some st" and "st \<noteq> ''REQUEST_SUCCEEDED''" and "message j = Some msg"
    and "process_data py j = Inr df"
  shows "fetch_data py (Body j) = ([ApiError msg], df)"
  using assms by (simp add: fetch_data_def fetch_data_try_def)

subsection \<open>Repeated entries\<close>

text \<open>
  Claim C9, as stated, for every upstream response: a response that holds the January
  entry twice yields a table with two rows of the same series name and the same date.
\<close>

theorem repeated_entry_is_kept_twice:
  "fetch_data py0 (Body (example_response ''REQUEST_SUCCEEDED'' [jan_item, jan_item])) =
     ([], [unemployment_row 2020 1 (7 / 2), unemployment_row 2020 1 (7 / 2)])"
  by (simp add: eval_defs)

text \<open>
  Claim C9, amended. \<^verbatim>\<open>fetch_data\<close> removes no duplicates: when it returns the table
  that \<^verbatim>\<open>_process_data\<close> built, the table is the list \<open>rows\<close>, sorted by series name and
  date, that holds one row for every accepted upstream entry, in the order of the response
  and with repeated entries repeated. So the table has at most one observation per
  (series name, date) pair exactly when no two accepted entries yield the same pair.
\<close>

theorem one_row_per_accepted_entry:
  assumes "fetch_data_try py (Body j) = (printed, Inr out)"
  shows "fetch_data py (Body j) = (printed, out)
     \<and> (\<exists>rows. list_all2 (row_of_entry py) (accepted_entries py j) rows
           \<and> out = sort_values_name_date rows
           \<and> (distinct (map (\<lambda>r. (Series_Name r, Date r)) out) \<longleftrightarrow>
                distinct (map (\<lambda>r. (Series_Name r, Date r)) rows)))"
proof -
  from process_data_Inr [OF fetch_data_try_Inr [OF assms]] obtain rows where
    rows: "list_all2 (row_of_entry py) (accepted_entries py j) rows"
      "out = sort_values_name_date rows"
    by blast
  have "mset (map (\<lambda>r. (Series_Name r, Date r)) out) =
        mset (map (\<lambda>r. (Series_Name r, Date r)) rows)"
    using rows(2) by (simp add: sort_values_name_date_def)
  then have "distinct (map (\<lambda>r. (Series_Name r, Date r)) out) \<longleftrightarrow>
             distinct (map (\<lambda>r. (Series_Name r, Date r)) rows)"
    by (rule mset_eq_imp_distinct_iff)
  with rows assms show ?thesis by (auto simp: fetch_data_def)
qed

theorem one_row_per_accepted_entry_witness:
  "fetch_data_try py0 (Body (example_response ''REQUEST_SUCCEEDED'' [mar_item, na_item, jan_item])) =
     ([], Inr [unemployment_row 2020 1 (7 / 2), unemployment_row 2020 3 4])
   \<and> accepted_entries py0 (example_response ''REQUEST_SUCCEEDED'' [mar_item, na_item, jan_item]) =
       [(''LNS14000000'', mar_item), (''LNS14000000'', jan_item)]
   \<and> fetch_data py0 (Body (example_response ''REQUEST_SUCCEEDED'' [mar_item, na_item, jan_item])) =
       ([], [unemployment_row 2020 1 (7 / 2), unemployment_row 2020 3 4])
   \<and> (\<exists>rows. list_all2 (row_of_entry py0)
           (accepted_entries py0
              (example_response ''REQUEST_SUCCEEDED'' [mar_item, na_item, jan_item])) rows
         \<and> [unemployment_row 2020 1 (7 / 2), unemployment_row 2020 3 4] =
             sort_values_name_date rows
         \<and> (distinct (map (\<lambda>r. (Series_Name r, Date r))
                [unemployment_row 2020 1 (7 / 2), unemployment_row 2020 3 4]) \<longleftrightarrow>
              distinct (map (\<lambda>r. (Series_Name r, Date r)) rows)))"
proof -
  have h: "fetch_data_try py0
       (Body (example_response ''REQUEST_SUCCEEDED'' [mar_item, na_item, jan_item])) =
     ([], Inr [unemployment_row 2020 1 (7 / 2), unemployment_row 2020 3 4])"
    by (simp add: eval_defs)
  have a: "accepted_entries py0
       (example_response ''REQUEST_SUCCEEDED'' [mar_item, na_item, jan_item]) =
       [(''LNS14000000'', mar_item), (''LNS14000000'', jan_item)]"
    by (simp add: accepted_entries_def response_series_def series_entries_def accepted_def
        eval_defs)
  from one_row_per_accepted_entry [OF h] h a show ?thesis by (intro conjI) simp_all
qed

end
